theory Spec2Isabelle
  imports Main
begin

section \<open>Data model (contact.entity.ts, identify.dto.ts)\<close>

text \<open>
  The \<open>Contact\<close> entity. The generated integer key \<open>id\<close> is the field \<open>contact_id\<close>
  (\<open>id\<close> is the identity function of HOL). Nullable columns are options; the three
  timestamps are integers (an instant on the time line).
\<close>

datatype link_precedence = Primary | Secondary

record contact =
  contact_id :: nat
  phoneNumber :: "string option"
  email :: "string option"
  linkedId :: "nat option"
  linkPrecedence :: link_precedence
  createdAt :: int
  updatedAt :: int
  deletedAt :: "int option"

text \<open>\<open>IdentifyRequestDto\<close>: both fields optional (\<open>undefined\<close> is \<open>None\<close>).\<close>

record IdentifyRequestDto =
  req_email :: "string option"
  req_phoneNumber :: "string option"

text \<open>
  \<open>IdentifyResponseDto\<close>: the fields of the inner \<open>contact\<close> object, under the names the
  source declares.
\<close>

record IdentifyResponseDto =
  primaryContatctId :: nat
  emails :: "string list"
  phoneNumbers :: "string list"
  secondaryContactIds :: "nat list"

text \<open>The object literal a response is, as JSON: keys in the order of the literal.\<close>

datatype json =
  JNumber nat
| JString string
| JArray "json list"
| JObject "(string \<times> json) list"

definition toJSON :: "IdentifyResponseDto \<Rightarrow> json" where
  "toJSON r =
     JObject [(''contact'', JObject
       [(''primaryContatctId'', JNumber (primaryContatctId r)),
        (''emails'', JArray (map JString (emails r))),
        (''phoneNumbers'', JArray (map JString (phoneNumbers r))),
        (''secondaryContactIds'', JArray (map JNumber (secondaryContactIds r)))])]"

fun json_get :: "json \<Rightarrow> string \<Rightarrow> json option" where
  "json_get (JObject kvs) k = map_of kvs k"
| "json_get _ k = None"

datatype error = BadRequestException | InternalServerErrorException

section \<open>The store (the TypeORM repository over the contact table)\<close>

text \<open>
  The table is the list of its rows in insertion order; \<open>nextId\<close> is the next value of the
  key's sequence; \<open>trace\<close> records every repository call the service issues, in order.
\<close>

datatype event = Select | Insert nat | Update nat

record store =
  table :: "contact list"
  nextId :: nat
  trace :: "event list"

definition empty_store :: store where
  "empty_store = \<lparr>table = [], nextId = 1, trace = []\<rparr>"

text \<open>JavaScript truthiness of an optional string: \<open>undefined\<close> and \<open>""\<close> are falsy.\<close>

fun truthy :: "string option \<Rightarrow> bool" where
  "truthy None = False"
| "truthy (Some s) = (s \<noteq> [])"

text \<open>
  SQL \<open>column = :param\<close>: true only when both sides are non-null and equal (an undefined
  parameter is sent as NULL).
\<close>

fun sql_eq :: "'a option \<Rightarrow> 'a option \<Rightarrow> bool" where
  "sql_eq (Some a) (Some b) = (a = b)"
| "sql_eq _ _ = False"

text \<open>
  The rows each query returns. TypeORM joins the strings given to \<open>where\<close> and \<open>andWhere\<close>
  with \<open>AND\<close> and puts no brackets around them, and in SQL \<open>AND\<close> binds tighter than \<open>OR\<close>:
  the condition of the first query is
  \<open>email = :email OR (phoneNumber = :phoneNumber AND deletedAt IS NULL)\<close>, and likewise for
  the other two. \<open>ORDER BY createdAt ASC\<close> is the stable sort of the rows in table order:
  SQL leaves the order of rows of equal \<open>createdAt\<close> open, and here they stay in table
  order. \<open>findOtherPrimaryContacts\<close> has no \<open>ORDER BY\<close>: its rows come in table order.
\<close>

definition findContactsByEmailOrPhone_rows ::
  "contact list \<Rightarrow> string option \<Rightarrow> string option \<Rightarrow> contact list" where
  "findContactsByEmailOrPhone_rows tbl e p =
     sort_key createdAt
       (filter (\<lambda>c. sql_eq (email c) e \<or> (sql_eq (phoneNumber c) p \<and> deletedAt c = None)) tbl)"

definition findOtherPrimaryContacts_rows ::
  "contact list \<Rightarrow> string option \<Rightarrow> string option \<Rightarrow> nat \<Rightarrow> contact list" where
  "findOtherPrimaryContacts_rows tbl e p i =
     filter (\<lambda>c. sql_eq (email c) e \<or>
                 (sql_eq (phoneNumber c) p \<and> linkPrecedence c = Primary \<and> contact_id c \<noteq> i
                    \<and> deletedAt c = None)) tbl"

definition findAllRelatedContacts_rows :: "contact list \<Rightarrow> nat \<Rightarrow> contact list" where
  "findAllRelatedContacts_rows tbl i =
     sort_key createdAt
       (filter (\<lambda>c. contact_id c = i \<or> (linkedId c = Some i \<and> deletedAt c = None)) tbl)"

definition logged :: "event \<Rightarrow> store \<Rightarrow> store" where
  "logged ev st = st\<lparr>trace := trace st @ [ev]\<rparr>"

definition findContactsByEmailOrPhone ::
  "store \<Rightarrow> string option \<Rightarrow> string option \<Rightarrow> contact list \<times> store" where
  "findContactsByEmailOrPhone st e p =
     (findContactsByEmailOrPhone_rows (table st) e p, logged Select st)"

definition findOtherPrimaryContacts ::
  "store \<Rightarrow> string option \<Rightarrow> string option \<Rightarrow> nat \<Rightarrow> contact list \<times> store" where
  "findOtherPrimaryContacts st e p i =
     (findOtherPrimaryContacts_rows (table st) e p i, logged Select st)"

definition findAllRelatedContacts :: "store \<Rightarrow> nat \<Rightarrow> contact list \<times> store" where
  "findAllRelatedContacts st i = (findAllRelatedContacts_rows (table st) i, logged Select st)"

text \<open>
  \<open>create\<close> builds an entity without key and timestamps from the fields it is given.
\<close>

record draft =
  d_email :: "string option"
  d_phoneNumber :: "string option"
  d_linkedId :: "nat option"
  d_linkPrecedence :: link_precedence

definition create ::
  "string option \<Rightarrow> string option \<Rightarrow> nat option \<Rightarrow> link_precedence \<Rightarrow> draft" where
  "create e p l prec =
     \<lparr>d_email = e, d_phoneNumber = p, d_linkedId = l, d_linkPrecedence = prec\<rparr>"

text \<open>
  \<open>saveContact\<close> on an entity without key: an INSERT. The sequence gives the key, the
  column defaults (\<open>CURRENT_TIMESTAMP\<close>, here \<open>now\<close>) give both timestamps, and the saved
  entity is returned.
\<close>

definition saveContact_new :: "store \<Rightarrow> draft \<Rightarrow> int \<Rightarrow> contact \<times> store" where
  "saveContact_new st d now =
     (let c = \<lparr>contact_id = nextId st, phoneNumber = d_phoneNumber d, email = d_email d,
                linkedId = d_linkedId d, linkPrecedence = d_linkPrecedence d,
                createdAt = now, updatedAt = now, deletedAt = None\<rparr>
      in (c, logged (Insert (nextId st))
               (st\<lparr>table := table st @ [c], nextId := Suc (nextId st)\<rparr>)))"

text \<open>
  \<open>saveContact\<close> on an entity that carries a key: the row of that key is overwritten in
  place. Were there no such row, the entity would be inserted, and since an INSERT leaves
  the generated column out, under the next key of the sequence.
\<close>

definition overwrite :: "contact \<Rightarrow> contact list \<Rightarrow> contact list" where
  "overwrite c tbl = map (\<lambda>r. if contact_id r = contact_id c then c else r) tbl"

definition saveContact :: "store \<Rightarrow> contact \<Rightarrow> contact \<times> store" where
  "saveContact st c =
     (if list_ex (\<lambda>r. contact_id r = contact_id c) (table st)
      then (c, logged (Update (contact_id c)) (st\<lparr>table := overwrite c (table st)\<rparr>))
      else (c\<lparr>contact_id := nextId st\<rparr>,
            logged (Insert (nextId st))
              (st\<lparr>table := table st @ [c\<lparr>contact_id := nextId st\<rparr>],
                  nextId := Suc (nextId st)\<rparr>)))"

section \<open>The service (contact.service.ts)\<close>

definition hasNewInfo :: "contact list \<Rightarrow> string option \<Rightarrow> string option \<Rightarrow> bool" where
  "hasNewInfo contacts e p =
     ((truthy e \<and> \<not> list_ex (\<lambda>c. email c = e) contacts) \<or>
      (truthy p \<and> \<not> list_ex (\<lambda>c. phoneNumber c = p) contacts))"

text \<open>
  \<open>contacts.reduce((earliest, current) => earliest.createdAt < current.createdAt ? earliest
  : current)\<close>: without initial value, so it throws on the empty array (\<open>None\<close>).
\<close>

definition reduce_earliest :: "contact list \<Rightarrow> contact option" where
  "reduce_earliest contacts =
     (case contacts of
        [] \<Rightarrow> None
      | c # rest \<Rightarrow>
          Some (foldl (\<lambda>earliest current.
                         if createdAt earliest < createdAt current then earliest else current)
                  c rest))"

definition determinePrimaryContact :: "contact list \<Rightarrow> contact option" where
  "determinePrimaryContact contacts =
     (case List.find (\<lambda>c. linkPrecedence c = Primary) contacts of
        Some primary \<Rightarrow> Some primary
      | None \<Rightarrow>
          (case reduce_earliest contacts of
             None \<Rightarrow> None
           | Some earliest \<Rightarrow> Some (earliest\<lparr>linkPrecedence := Primary\<rparr>)))"

text \<open>\<open>.filter(Boolean)\<close> on the column values: null and the empty string go.\<close>

fun filter_Boolean :: "string option list \<Rightarrow> string list" where
  "filter_Boolean [] = []"
| "filter_Boolean (None # vs) = filter_Boolean vs"
| "filter_Boolean (Some s # vs) = (if s = [] then filter_Boolean vs else s # filter_Boolean vs)"

text \<open>
  \<open>Array.from(new Set(xs))\<close>: a Set keeps insertion order and ignores a value it already
  has.
\<close>

definition Array_from_Set :: "'a list \<Rightarrow> 'a list" where
  "Array_from_Set xs = foldl (\<lambda>acc x. if x \<in> set acc then acc else acc @ [x]) [] xs"

text \<open>
  \<open>if (v && xs.includes(v)) { xs.splice(xs.indexOf(v), 1); xs.unshift(v) }\<close>
\<close>

definition move_to_front :: "string option \<Rightarrow> string list \<Rightarrow> string list" where
  "move_to_front v xs =
     (case v of
        None \<Rightarrow> xs
      | Some s \<Rightarrow> if s \<noteq> [] \<and> s \<in> set xs then s # remove1 s xs else xs)"

definition consolidateContacts :: "contact list \<Rightarrow> contact \<Rightarrow> IdentifyResponseDto" where
  "consolidateContacts allContacts primaryContact =
     \<lparr>primaryContatctId = contact_id primaryContact,
      emails = move_to_front (email primaryContact)
                 (Array_from_Set (filter_Boolean (map email allContacts))),
      phoneNumbers = move_to_front (phoneNumber primaryContact)
                 (Array_from_Set (filter_Boolean (map phoneNumber allContacts))),
      secondaryContactIds =
        map contact_id (filter (\<lambda>c. linkPrecedence c = Secondary) allContacts)\<rparr>"

text \<open>\<open>new Date()\<close> is the parameter \<open>tjs\<close>.\<close>

definition reassignPrimaryContacts :: "contact list \<Rightarrow> contact \<Rightarrow> int \<Rightarrow> contact list" where
  "reassignPrimaryContacts otherPrimaryContacts earliestPrimary tjs =
     map (\<lambda>c. c\<lparr>linkPrecedence := Secondary,
                linkedId := Some (contact_id earliestPrimary),
                updatedAt := tjs\<rparr>)
       (filter (\<lambda>c. contact_id c \<noteq> contact_id earliestPrimary) otherPrimaryContacts)"

text \<open>\<open>Promise.all\<close> over the saves, issued in the order of the array.\<close>

definition saveAll :: "store \<Rightarrow> contact list \<Rightarrow> store" where
  "saveAll st cs = foldl (\<lambda>s c. snd (saveContact s c)) st cs"

text \<open>
  \<open>identify\<close>. The result is the response or the exception thrown, with the store the call
  leaves. \<open>now\<close> is the database clock at the insert, \<open>tjs\<close> the process clock at the
  merge. A \<open>TypeError\<close> of \<open>reduce\<close> inside the \<open>try\<close> is rethrown as
  \<open>InternalServerErrorException\<close>.
\<close>

definition identify ::
  "store \<Rightarrow> IdentifyRequestDto \<Rightarrow> int \<Rightarrow> int \<Rightarrow> (error + IdentifyResponseDto) \<times> store" where
  "identify st data now tjs =
     (let e = req_email data; p = req_phoneNumber data in
      if \<not> truthy e \<and> \<not> truthy p then (Inl BadRequestException, st)
      else
        let (contacts, st1) = findContactsByEmailOrPhone st e p in
        if contacts = [] then
          let (savedContact, st2) = saveContact_new st1 (create e p None Primary) now
          in (Inr (consolidateContacts [savedContact] savedContact), st2)
        else
          (case determinePrimaryContact contacts of
             None \<Rightarrow> (Inl InternalServerErrorException, st1)
           | Some primaryContact \<Rightarrow>
               let st2 = (if linkPrecedence primaryContact \<noteq> linkPrecedence (hd contacts)
                          then snd (saveContact st1 primaryContact) else st1);
                   (contacts', st3) =
                     (if hasNewInfo contacts e p
                      then let (savedContact, s) =
                                 saveContact_new st2
                                   (create e p (Some (contact_id primaryContact)) Secondary) now
                           in (contacts @ [savedContact], s)
                      else (contacts, st2));
                   (otherPrimaryContacts, st4) =
                     findOtherPrimaryContacts st3 e p (contact_id primaryContact)
               in
                 if otherPrimaryContacts \<noteq> [] then
                   (case reduce_earliest contacts' of
                      None \<Rightarrow> (Inl InternalServerErrorException, st4)
                    | Some earliestPrimary \<Rightarrow>
                        let st5 = saveAll st4
                                    (reassignPrimaryContacts otherPrimaryContacts
                                       earliestPrimary tjs);
                            (allContacts, st6) =
                              findAllRelatedContacts st5 (contact_id primaryContact)
                        in (Inr (consolidateContacts allContacts primaryContact), st6))
                 else
                   let (allContacts, st6) =
                         findAllRelatedContacts st4 (contact_id primaryContact)
                   in (Inr (consolidateContacts allContacts primaryContact), st6)))"

section \<open>The stages of \<open>identify\<close> and the vocabulary of the properties\<close>




definition overwrite_all :: "contact list \<Rightarrow> contact list \<Rightarrow> contact list" where
  "overwrite_all cs tbl = foldl (\<lambda>t c. overwrite c t) tbl cs"


text \<open>The repository calls one request adds to the trace.\<close>

definition new_events :: "store \<Rightarrow> store \<Rightarrow> event list" where
  "new_events st st' = drop (length (trace st)) (trace st')"








section \<open>Concrete runs\<close>

definition request :: "string option \<Rightarrow> string option \<Rightarrow> IdentifyRequestDto" where
  "request e p = \<lparr>req_email = e, req_phoneNumber = p\<rparr>"

text \<open>A sequence of calls, each with the instant both clocks show.\<close>

definition replay :: "store \<Rightarrow> (IdentifyRequestDto \<times> int) list \<Rightarrow> store" where
  "replay st rs = foldl (\<lambda>s (r, t). snd (identify s r t t)) st rs"

definition one_contact :: store where
  "one_contact = replay empty_store [(request (Some ''a@x'') (Some ''111''), 10)]"

definition linked_pair :: store where
  "linked_pair = replay one_contact [(request (Some ''b@x'') (Some ''111''), 20)]"


definition two_clusters :: store where
  "two_clusters = replay empty_store
     [(request (Some ''a@x'') (Some ''111''), 10),
      (request (Some ''b@x'') (Some ''222''), 20),
      (request (Some ''c@x'') (Some ''222''), 30),
      (request (Some ''d@x'') (Some ''222''), 40)]"

definition merged_clusters :: store where
  "merged_clusters = replay two_clusters [(request (Some ''a@x'') (Some ''222''), 50)]"


text \<open>The same with two such primary contacts, 3 and 4.\<close>

definition shared_email_twice :: store where
  "shared_email_twice = replay empty_store
     [(request (Some ''r@x'') (Some ''111''), 10),
      (request (Some ''e@x'') (Some ''111''), 20),
      (request (Some ''e@x'') (Some ''333''), 30),
      (request (Some ''e@x'') (Some ''444''), 40),
      (request None (Some ''333''), 50),
      (request None (Some ''444''), 60),
      (request None (Some ''111''), 70)]"

text \<open>
  Contact 2 is a secondary contact of 1 and holds the phone number \<open>999\<close>; contact 3,
  created later with that number, is primary after its promotion; contact 4 is primary.
\<close>

definition shared_phone :: store where
  "shared_phone = replay empty_store
     [(request (Some ''r@x'') (Some ''111''), 10),
      (request (Some ''r@x'') (Some ''999''), 20),
      (request (Some ''q@x'') (Some ''999''), 30),
      (request (Some ''q@x'') None, 40),
      (request (Some ''r@x'') None, 50),
      (request (Some ''p@x'') (Some ''222''), 60)]"

text \<open>A live row, written on one line.\<close>

definition row ::
  "nat \<Rightarrow> string \<Rightarrow> string \<Rightarrow> nat option \<Rightarrow> link_precedence \<Rightarrow> int \<Rightarrow> int \<Rightarrow> contact" where
  "row i e p l prec c u =
     \<lparr>contact_id = i, phoneNumber = Some p, email = Some e, linkedId = l,
      linkPrecedence = prec, createdAt = c, updatedAt = u, deletedAt = None\<rparr>"

section \<open>Properties of the reconciliation\<close>

subsection \<open>Tables, queries and reductions\<close>

lemmas store_ops =
  findContactsByEmailOrPhone_def findOtherPrimaryContacts_def findAllRelatedContacts_def
  saveContact_new_def saveContact_def logged_def create_def

lemma determinePrimaryContact_Nil: "determinePrimaryContact [] = None"
  by (simp add: determinePrimaryContact_def reduce_earliest_def)

lemma overwrite_ids: "map contact_id (overwrite c t) = map contact_id t"
  by (induction t) (simp_all add: overwrite_def)





lemma overwrite_all_Nil: "overwrite_all [] t = t"
  by (simp add: overwrite_all_def)

lemma overwrite_all_Cons: "overwrite_all (c # cs) t = overwrite_all cs (overwrite c t)"
  by (simp add: overwrite_all_def)

lemma overwrite_all_ids: "map contact_id (overwrite_all cs t) = map contact_id t"
  by (induction cs arbitrary: t) (simp_all add: overwrite_all_Nil overwrite_all_Cons overwrite_ids)















subsection \<open>The stages\<close>
















subsection \<open>Concrete runs, evaluated\<close>

lemma linked_pair_run:
  "identify one_contact (request (Some ''b@x'') (Some ''111'')) 20 20
     = (Inr \<lparr>primaryContatctId = 1, emails = [''a@x'', ''b@x''], phoneNumbers = [''111''],
             secondaryContactIds = [2]\<rparr>, linked_pair)"
  by code_simp


subsection \<open>The consolidated columns\<close>













subsection \<open>Facts about the matched contacts\<close>





section \<open>Properties of the service\<close>

subsection \<open>Rejected requests\<close>

text \<open>
  C9. A request in which both \<open>email\<close> and \<open>phoneNumber\<close> are absent fails with
  \<open>BadRequestException\<close>; the store returned is the store given, trace included, so no
  repository call, read or write, was issued.
\<close>

theorem identify_rejects_absent:
  "req_email data = None \<Longrightarrow> req_phoneNumber data = None \<Longrightarrow>
   identify st data now tjs = (Inl BadRequestException, st)"
  by (simp add: identify_def)

theorem identify_rejects_absent_witness:
  "identify empty_store \<lparr>req_email = None, req_phoneNumber = None\<rparr> 5 5
     = (Inl BadRequestException, empty_store)"
  using identify_rejects_absent
          [of "\<lparr>req_email = None, req_phoneNumber = None\<rparr>" empty_store 5 5]
  by simp

text \<open>
  C10. Empty strings count as absent: a request whose \<open>email\<close> and \<open>phoneNumber\<close> are both
  the empty string is rejected with \<open>BadRequestException\<close> and the store is untouched
  (no repository call in the trace); and in \<open>hasNewInfo\<close> an empty-string field decides
  exactly as an absent one, so it is never new information.
\<close>

theorem empty_string_is_absent:
  "identify st \<lparr>req_email = Some [], req_phoneNumber = Some []\<rparr> now tjs
     = (Inl BadRequestException, st)
   \<and> hasNewInfo contacts (Some []) p = hasNewInfo contacts None p
   \<and> hasNewInfo contacts e (Some []) = hasNewInfo contacts e None
   \<and> hasNewInfo contacts (Some []) (Some []) = False"
  by (simp add: identify_def hasNewInfo_def)

subsection \<open>Shape of the response\<close>

text \<open>
  C5, as the code has it. Every successful call returns the object
  \<open>{ contact: { primaryContatctId, emails, phoneNumbers, secondaryContactIds } }\<close>: the key
  of the numeric id is spelled \<open>primaryContatctId\<close> (in the DTO, in the service and in the
  README alike), and its value is the id of the resolved primary contact (of the contact
  just created when nothing matched).
\<close>

theorem response_shape:
  assumes "identify st data now tjs = (Inr r, st')"
  shows "toJSON r =
           JObject [(''contact'', JObject
             [(''primaryContatctId'',
                 JNumber (case determinePrimaryContact
                                 (findContactsByEmailOrPhone_rows (table st)
                                    (req_email data) (req_phoneNumber data)) of
                            None \<Rightarrow> nextId st
                          | Some primaryContact \<Rightarrow> contact_id primaryContact)),
              (''emails'', JArray (map JString (emails r))),
              (''phoneNumbers'', JArray (map JString (phoneNumbers r))),
              (''secondaryContactIds'', JArray (map JNumber (secondaryContactIds r)))])]"
  using assms
  by (auto simp: identify_def Let_def toJSON_def store_ops consolidateContacts_def
        determinePrimaryContact_Nil
      split: if_splits option.splits prod.splits)

theorem response_shape_witness:
  "identify one_contact (request (Some ''b@x'') (Some ''111'')) 20 20
     = (Inr \<lparr>primaryContatctId = 1, emails = [''a@x'', ''b@x''], phoneNumbers = [''111''],
             secondaryContactIds = [2]\<rparr>, linked_pair) \<and>
   toJSON \<lparr>primaryContatctId = 1, emails = [''a@x'', ''b@x''], phoneNumbers = [''111''],
           secondaryContactIds = [2]\<rparr>
     = JObject [(''contact'', JObject
         [(''primaryContatctId'', JNumber 1),
          (''emails'', JArray [JString ''a@x'', JString ''b@x'']),
          (''phoneNumbers'', JArray [JString ''111'']),
          (''secondaryContactIds'', JArray [JNumber 2])])]"
proof -
  have "determinePrimaryContact
          (findContactsByEmailOrPhone_rows (table one_contact)
             (req_email (request (Some ''b@x'') (Some ''111'')))
             (req_phoneNumber (request (Some ''b@x'') (Some ''111''))))
        = Some (row 1 ''a@x'' ''111'' None Primary 10 10)"
    by code_simp
  with response_shape [OF linked_pair_run] linked_pair_run
  show ?thesis by (simp add: row_def)
qed

text \<open>
  C5 as the specification words it fails on the first contact ever created: the
  \<open>contact\<close> object of the response has no key \<open>primaryContactId\<close>.
\<close>

theorem response_key_counterexample:
  "fst (identify empty_store (request (Some ''a@x'') (Some ''111'')) 10 10)
     = Inr \<lparr>primaryContatctId = 1, emails = [''a@x''], phoneNumbers = [''111''],
            secondaryContactIds = []\<rparr> \<and>
   json_get (toJSON \<lparr>primaryContatctId = 1, emails = [''a@x''], phoneNumbers = [''111''],
                     secondaryContactIds = []\<rparr>) ''contact''
     = Some (JObject [(''primaryContatctId'', JNumber 1),
                      (''emails'', JArray [JString ''a@x'']),
                      (''phoneNumbers'', JArray [JString ''111'']),
                      (''secondaryContactIds'', JArray [])]) \<and>
   json_get (JObject [(''primaryContatctId'', JNumber 1),
                      (''emails'', JArray [JString ''a@x'']),
                      (''phoneNumbers'', JArray [JString ''111'']),
                      (''secondaryContactIds'', JArray [])]) ''primaryContactId'' = None"
  by code_simp

subsection \<open>The Fact Recorder\<close>


subsection \<open>The Consolidator\<close>



subsection \<open>The Cluster Merger\<close>

text \<open>
  C1, at a failing input. Contacts 3 and 4 are secondary contacts of the primary contact 2.
  The request \<open>(a@x, 222)\<close> bridges the clusters of 1 and 2. The contacts
  \<open>findOtherPrimaryContacts\<close> returns are 1, which holds the email, and 2; contact 2 is
  demoted and linked to 1, and contacts 3 and 4 keep \<open>linkedId = 2\<close>, the id of a contact
  that is now secondary: \<open>reassignPrimaryContacts\<close> rewrites the contacts it is given
  only. The cluster of 1 as \<open>findAllRelatedContacts\<close> reads it is contacts 1 and 2, and
  the response has neither \<open>c@x\<close> nor \<open>d@x\<close>.
\<close>

theorem secondaries_of_demoted_keep_link:
  "table two_clusters =
     [row 1 ''a@x'' ''111'' None Primary 10 10,
      row 2 ''b@x'' ''222'' None Primary 20 20,
      row 3 ''c@x'' ''222'' (Some 2) Secondary 30 30,
      row 4 ''d@x'' ''222'' (Some 2) Secondary 40 40] \<and>
   determinePrimaryContact
     (findContactsByEmailOrPhone_rows (table two_clusters) (Some ''a@x'') (Some ''222''))
     = Some (row 1 ''a@x'' ''111'' None Primary 10 10) \<and>
   findOtherPrimaryContacts_rows (table two_clusters) (Some ''a@x'') (Some ''222'') 1
     = [row 1 ''a@x'' ''111'' None Primary 10 10,
        row 2 ''b@x'' ''222'' None Primary 20 20] \<and>
   identify two_clusters (request (Some ''a@x'') (Some ''222'')) 50 50
     = (Inr \<lparr>primaryContatctId = 1, emails = [''a@x'', ''b@x''],
             phoneNumbers = [''111'', ''222''], secondaryContactIds = [2]\<rparr>,
        merged_clusters) \<and>
   new_events two_clusters merged_clusters = [Select, Select, Update 2, Select] \<and>
   table merged_clusters =
     [row 1 ''a@x'' ''111'' None Primary 10 10,
      row 2 ''b@x'' ''222'' (Some 1) Secondary 20 50,
      row 3 ''c@x'' ''222'' (Some 2) Secondary 30 30,
      row 4 ''d@x'' ''222'' (Some 2) Secondary 40 40] \<and>
   findAllRelatedContacts_rows (table merged_clusters) 1
     = [row 1 ''a@x'' ''111'' None Primary 10 10,
        row 2 ''b@x'' ''222'' (Some 1) Secondary 20 50]"
  by code_simp

text \<open>
  C2, at a failing input. The request \<open>(p@x, 999)\<close> matches the secondary contact 2 and
  the primary contacts 3 and 4. The primary contact of the call is 3; the one contact
  \<open>findOtherPrimaryContacts\<close> returns is 4, the one other primary contact among the
  matches; the earliest of 3 and 4 is 3. But \<open>earliestPrimary\<close> is reduced from all the
  matched contacts, so it is contact 2, and contact 4 is linked to 2, a secondary contact
  of contact 1.
\<close>

theorem merge_target_is_earliest_match:
  "table shared_phone =
     [row 1 ''r@x'' ''111'' None Primary 10 10,
      row 2 ''r@x'' ''999'' (Some 1) Secondary 20 50,
      row 3 ''q@x'' ''999'' (Some 2) Primary 30 30,
      row 4 ''p@x'' ''222'' None Primary 60 60] \<and>
   findContactsByEmailOrPhone_rows (table shared_phone) (Some ''p@x'') (Some ''999'')
     = [row 2 ''r@x'' ''999'' (Some 1) Secondary 20 50,
        row 3 ''q@x'' ''999'' (Some 2) Primary 30 30,
        row 4 ''p@x'' ''222'' None Primary 60 60] \<and>
   determinePrimaryContact
     (findContactsByEmailOrPhone_rows (table shared_phone) (Some ''p@x'') (Some ''999''))
     = Some (row 3 ''q@x'' ''999'' (Some 2) Primary 30 30) \<and>
   findOtherPrimaryContacts_rows (table shared_phone) (Some ''p@x'') (Some ''999'') 3
     = [row 4 ''p@x'' ''222'' None Primary 60 60] \<and>
   reduce_earliest
     [row 3 ''q@x'' ''999'' (Some 2) Primary 30 30, row 4 ''p@x'' ''222'' None Primary 60 60]
     = Some (row 3 ''q@x'' ''999'' (Some 2) Primary 30 30) \<and>
   reduce_earliest
     (findContactsByEmailOrPhone_rows (table shared_phone) (Some ''p@x'') (Some ''999''))
     = Some (row 2 ''r@x'' ''999'' (Some 1) Secondary 20 50) \<and>
   fst (identify shared_phone (request (Some ''p@x'') (Some ''999'')) 70 70)
     = Inr \<lparr>primaryContatctId = 3, emails = [''q@x''], phoneNumbers = [''999''],
            secondaryContactIds = []\<rparr> \<and>
   new_events shared_phone
     (snd (identify shared_phone (request (Some ''p@x'') (Some ''999'')) 70 70))
     = [Select, Update 3, Select, Update 4, Select] \<and>
   table (snd (identify shared_phone (request (Some ''p@x'') (Some ''999'')) 70 70)) =
     [row 1 ''r@x'' ''111'' None Primary 10 10,
      row 2 ''r@x'' ''999'' (Some 1) Secondary 20 50,
      row 3 ''q@x'' ''999'' (Some 2) Primary 30 30,
      row 4 ''p@x'' ''222'' (Some 2) Secondary 60 70]"
  by code_simp

subsection \<open>The order of the Fact Recorder and the merge\<close>

text \<open>
  C3, at a failing input. Contact 2 is a secondary contact of 1; the primary contacts 3
  and 4 hold the email \<open>e@x\<close>, as contact 2 does. The request \<open>(e@x, 555)\<close> matches 2,
  3 and 4, and the primary contact of the call is 3. The new contact 5 is inserted first,
  linked to 3. The merge comes after: \<open>findOtherPrimaryContacts\<close> returns every contact
  that holds the email, contact 3 and the new contact 5 among them, and \<open>earliestPrimary\<close>
  is contact 2; so contacts 3, 4 and 5 are saved as secondary contacts of 2. The contact
  the new one was linked to is demoted in the same call, and the new contact ends linked
  to a secondary contact.
\<close>

theorem new_contact_follows_demoted_primary:
  "table shared_email_twice =
     [row 1 ''r@x'' ''111'' None Primary 10 10,
      row 2 ''e@x'' ''111'' (Some 1) Secondary 20 70,
      row 3 ''e@x'' ''333'' (Some 2) Primary 30 40,
      row 4 ''e@x'' ''444'' (Some 2) Primary 40 40] \<and>
   nextId shared_email_twice = 5 \<and>
   findContactsByEmailOrPhone_rows (table shared_email_twice) (Some ''e@x'') (Some ''555'')
     = [row 2 ''e@x'' ''111'' (Some 1) Secondary 20 70,
        row 3 ''e@x'' ''333'' (Some 2) Primary 30 40,
        row 4 ''e@x'' ''444'' (Some 2) Primary 40 40] \<and>
   determinePrimaryContact
     (findContactsByEmailOrPhone_rows (table shared_email_twice) (Some ''e@x'') (Some ''555''))
     = Some (row 3 ''e@x'' ''333'' (Some 2) Primary 30 40) \<and>
   findOtherPrimaryContacts_rows
     (table shared_email_twice @ [row 5 ''e@x'' ''555'' (Some 3) Secondary 80 80])
     (Some ''e@x'') (Some ''555'') 3
     = [row 2 ''e@x'' ''111'' (Some 1) Secondary 20 70,
        row 3 ''e@x'' ''333'' (Some 2) Primary 30 40,
        row 4 ''e@x'' ''444'' (Some 2) Primary 40 40,
        row 5 ''e@x'' ''555'' (Some 3) Secondary 80 80] \<and>
   fst (identify shared_email_twice (request (Some ''e@x'') (Some ''555'')) 80 80)
     = Inr \<lparr>primaryContatctId = 3, emails = [''e@x''], phoneNumbers = [''333''],
            secondaryContactIds = [3]\<rparr> \<and>
   new_events shared_email_twice
     (snd (identify shared_email_twice (request (Some ''e@x'') (Some ''555'')) 80 80))
     = [Select, Update 3, Insert 5, Select, Update 3, Update 4, Update 5, Select] \<and>
   table (snd (identify shared_email_twice (request (Some ''e@x'') (Some ''555'')) 80 80)) =
     [row 1 ''r@x'' ''111'' None Primary 10 10,
      row 2 ''e@x'' ''111'' (Some 1) Secondary 20 70,
      row 3 ''e@x'' ''333'' (Some 2) Secondary 30 80,
      row 4 ''e@x'' ''444'' (Some 2) Secondary 40 80,
      row 5 ''e@x'' ''555'' (Some 2) Secondary 80 80]"
  by code_simp

subsection \<open>Precedence and \<open>linkedId\<close>\<close>




text \<open>
  The condition on the instants is needed. When the new contact is created at the instant
  the promoted contact was, \<open>earliestPrimary\<close> is the new contact, and the merge, which
  is handed every contact that holds the email of the request, saves the promoted contact
  again, as a secondary contact of the new one.
\<close>

lemma promotion_undone_at_equal_instants:
  "fst (identify linked_pair (request (Some ''b@x'') (Some ''333'')) 20 20)
     = Inr \<lparr>primaryContatctId = 2, emails = [''b@x''], phoneNumbers = [''111'', ''333''],
            secondaryContactIds = [2, 3]\<rparr> \<and>
   new_events linked_pair
     (snd (identify linked_pair (request (Some ''b@x'') (Some ''333'')) 20 20))
     = [Select, Update 2, Insert 3, Select, Update 2, Select] \<and>
   table (snd (identify linked_pair (request (Some ''b@x'') (Some ''333'')) 20 20)) =
     [row 1 ''a@x'' ''111'' None Primary 10 10,
      row 2 ''b@x'' ''111'' (Some 3) Secondary 20 20,
      row 3 ''b@x'' ''333'' (Some 2) Secondary 20 20]"
  by code_simp

subsection \<open>Requests that carry nothing new\<close>

text \<open>
  C8, at a failing input. The request \<open>(a@x, 222)\<close> merges the clusters of
  \<open>two_clusters\<close> and returns \<open>secondaryContactIds = [2]\<close>. The email \<open>b@x\<close> is then held
  by contact 2 alone, a secondary contact of 1. The request \<open>(b@x, -)\<close> carries nothing
  new and inserts nothing: the table keeps its four rows. It matches contact 2 alone, which
  is made primary; contacts 3 and 4, which the merge left linked to 2, are read as its
  cluster, and the response has \<open>secondaryContactIds = [3, 4]\<close>, longer than the one
  before.
\<close>

theorem known_attribute_longer_response:
  "identify two_clusters (request (Some ''a@x'') (Some ''222'')) 50 50
     = (Inr \<lparr>primaryContatctId = 1, emails = [''a@x'', ''b@x''],
             phoneNumbers = [''111'', ''222''], secondaryContactIds = [2]\<rparr>,
        merged_clusters) \<and>
   table merged_clusters =
     [row 1 ''a@x'' ''111'' None Primary 10 10,
      row 2 ''b@x'' ''222'' (Some 1) Secondary 20 50,
      row 3 ''c@x'' ''222'' (Some 2) Secondary 30 30,
      row 4 ''d@x'' ''222'' (Some 2) Secondary 40 40] \<and>
   findContactsByEmailOrPhone_rows (table merged_clusters) (Some ''b@x'') None
     = [row 2 ''b@x'' ''222'' (Some 1) Secondary 20 50] \<and>
   \<not> hasNewInfo (findContactsByEmailOrPhone_rows (table merged_clusters) (Some ''b@x'') None)
       (Some ''b@x'') None \<and>
   fst (identify merged_clusters (request (Some ''b@x'') None) 60 60)
     = Inr \<lparr>primaryContatctId = 2, emails = [''b@x'', ''c@x'', ''d@x''],
            phoneNumbers = [''222''], secondaryContactIds = [3, 4]\<rparr> \<and>
   new_events merged_clusters (snd (identify merged_clusters (request (Some ''b@x'') None) 60 60))
     = [Select, Update 2, Select, Select] \<and>
   table (snd (identify merged_clusters (request (Some ''b@x'') None) 60 60)) =
     [row 1 ''a@x'' ''111'' None Primary 10 10,
      row 2 ''b@x'' ''222'' (Some 1) Primary 20 50,
      row 3 ''c@x'' ''222'' (Some 2) Secondary 30 30,
      row 4 ''d@x'' ''222'' (Some 2) Secondary 40 40]"
  by code_simp


end
